theory Spec2Isabelle
  imports Main
begin

section \<open>Real-time channel of \<^verbatim>\<open>src/server/routes.ts\<close>\<close>

text \<open>
  The file registers one handler per WebSocket connection. The handler of an inbound
  frame parses it, and when the parsed value has \<^verbatim>\<open>type === "message"\<close> it walks
  \<^verbatim>\<open>wss.clients\<close> and calls \<^verbatim>\<open>send\<close> on every client other than the receiving
  socket. The whole body sits in one \<^verbatim>\<open>try { ... } catch (error) { console.error(...) }\<close>.
\<close>

subsection \<open>Values\<close>

text \<open>
  A number, kept as the two things this file observes of it: whether it is zero (it is
  then falsy) and the text JavaScript converts it to.
\<close>

datatype js_number = Number (isZero: bool) (rendered: string)

text \<open>
  The outcome of \<^verbatim>\<open>JSON.parse(message.toString())\<close>: a syntax error, or a JSON value.
  Objects keep their members in textual order.
\<close>

datatype json =
    JNull
  | JBool bool
  | JNum js_number
  | JStr string
  | JArr "json list"
  | JObj "(string \<times> json) list"

datatype payload = Unparseable | Parsed json

datatype js_error =
    SyntaxError
  | TypeError
  | SendError
  | JsError string
  | MulterError string

text \<open>A value read from a session entry or a literal: \<^verbatim>\<open>undefined\<close>, a number or a string.\<close>

datatype js_val = Undefined | Num nat | Str string

text \<open>
  Member access \<^verbatim>\<open>data.k\<close> for the three keys the handler reads (\<^verbatim>\<open>type\<close>,
  \<^verbatim>\<open>sessionId\<close>, \<^verbatim>\<open>content\<close>; no prototype defines them). On \<^verbatim>\<open>null\<close> it raises
  a TypeError; on an object the last member of that name wins; on any other value it
  is \<^verbatim>\<open>undefined\<close>, written \<open>None\<close>.
\<close>

fun getField :: "json \<Rightarrow> string \<Rightarrow> js_error + json option" where
  "getField JNull k = Inl TypeError"
| "getField (JObj kvs) k = Inr (map_of (rev kvs) k)"
| "getField (JBool b) k = Inr None"
| "getField (JNum n) k = Inr None"
| "getField (JStr s) k = Inr None"
| "getField (JArr xs) k = Inr None"

fun truthy :: "json option \<Rightarrow> bool" where
  "truthy None = False"
| "truthy (Some JNull) = False"
| "truthy (Some (JBool b)) = b"
| "truthy (Some (JNum n)) = (\<not> isZero n)"
| "truthy (Some (JStr s)) = (s \<noteq> [])"
| "truthy (Some (JArr xs)) = True"
| "truthy (Some (JObj kvs)) = True"

text \<open>
  \<^verbatim>\<open>Array.prototype.join\<close> over the converted elements; the first element whose
  conversion raises ends the join with that error.
\<close>

fun joinComma :: "(js_error + string) list \<Rightarrow> js_error + string" where
  "joinComma [] = Inr []"
| "joinComma [r] = r"
| "joinComma (r # t # ts) =
     (case r of
        Inl e \<Rightarrow> Inl e
      | Inr a \<Rightarrow> (case joinComma (t # ts) of
                    Inl e \<Rightarrow> Inl e
                  | Inr b \<Rightarrow> Inr (a @ CHR '','' # b)))"

text \<open>
  The property key a value is converted to when it indexes an object, as in
  \<^verbatim>\<open>sessions[data.sessionId]\<close>. A string is its own key. An object is converted by its
  \<^verbatim>\<open>toString\<close>: the inherited one answers \<^verbatim>\<open>[object Object]\<close>, but an own member of
  that name, which in parsed JSON is never a function, hides it, the inherited
  \<^verbatim>\<open>valueOf\<close> only returns the object, and the conversion raises a TypeError. An array
  is the join of its elements, \<^verbatim>\<open>null\<close> counting as the empty text.
\<close>

fun toPropertyKey :: "json \<Rightarrow> js_error + string" where
  "toPropertyKey JNull = Inr ''null''"
| "toPropertyKey (JBool b) = Inr (if b then ''true'' else ''false'')"
| "toPropertyKey (JNum n) = Inr (rendered n)"
| "toPropertyKey (JStr s) = Inr s"
| "toPropertyKey (JArr xs) =
     joinComma (map (\<lambda>x. if x = JNull then Inr [] else toPropertyKey x) xs)"
| "toPropertyKey (JObj kvs) =
     (if ''toString'' \<in> set (map fst kvs) then Inl TypeError else Inr ''[object Object]'')"

subsection \<open>The session table\<close>

text \<open>
  \<^verbatim>\<open>const sessions: Record<string, { userId: number, username: string }> = {}\<close> is an
  ordinary object literal: reading \<^verbatim>\<open>sessions[k]\<close> finds an own property first and
  otherwise a member inherited from \<^verbatim>\<open>Object.prototype\<close>. Every inherited member is a
  truthy value that has neither a \<^verbatim>\<open>userId\<close> nor a \<^verbatim>\<open>username\<close>.
\<close>

record session =
  userId :: nat
  username :: string

type_synonym sessions = "string \<rightharpoonup> session"

datatype member = Own session | Inherited

definition objectPrototypeKeys :: "string list" where
  "objectPrototypeKeys =
     [''constructor'', ''hasOwnProperty'', ''isPrototypeOf'', ''propertyIsEnumerable'',
      ''toLocaleString'', ''toString'', ''valueOf'', ''__proto__'',
      ''__defineGetter__'', ''__defineSetter__'', ''__lookupGetter__'', ''__lookupSetter__'']"

definition sessionsGet :: "sessions \<Rightarrow> string \<Rightarrow> member option" where
  "sessionsGet ss k =
     (case ss k of
        Some s \<Rightarrow> Some (Own s)
      | None \<Rightarrow> if k \<in> set objectPrototypeKeys then Some Inherited else None)"

fun memberUserId :: "member \<Rightarrow> js_val" where
  "memberUserId (Own s) = Num (userId s)"
| "memberUserId Inherited = Undefined"

fun memberUsername :: "member \<Rightarrow> js_val" where
  "memberUsername (Own s) = Str (username s)"
| "memberUsername Inherited = Undefined"

subsection \<open>Connections and the broadcast loop\<close>

type_synonym conn = nat

text \<open>
  What \<^verbatim>\<open>JSON.stringify\<close> is applied to before \<^verbatim>\<open>send\<close> in the broadcast: the
  \<^verbatim>\<open>senderId\<close>, the \<^verbatim>\<open>senderName\<close>, the \<^verbatim>\<open>content\<close> and the \<^verbatim>\<open>timestamp\<close> of an
  object whose \<^verbatim>\<open>type\<close> is \<^verbatim>\<open>"message"\<close>.
\<close>

datatype outbound = MessageEvent js_val js_val "json option" string

datatype log_entry =
    Received
  | WebSocketMessageError js_error
  | ErrorSummarizingPdf js_error
  | ErrorUploadingContent js_error

text \<open>
  \<^verbatim>\<open>wss.clients\<close> is a \<^verbatim>\<open>Set\<close>, walked by \<^verbatim>\<open>forEach\<close> in insertion order: a list of
  connections. \<open>outbox c\<close> holds what has been handed to \<^verbatim>\<open>send\<close> of \<open>c\<close> so far.
\<close>

record ws_state =
  clients :: "conn list"
  outbox :: "conn \<Rightarrow> outbound list"
  console :: "log_entry list"

definition field :: "json \<Rightarrow> string \<Rightarrow> json option" where
  "field data k = (case getField data k of Inl e \<Rightarrow> None | Inr v \<Rightarrow> v)"

text \<open>
  The key that \<^verbatim>\<open>data.sessionId && sessions[data.sessionId]\<close> looks up: none when
  \<^verbatim>\<open>data.sessionId\<close> is falsy, since \<^verbatim>\<open>&&\<close> then stops before the lookup; otherwise
  the property key of \<^verbatim>\<open>data.sessionId\<close>, or the error its conversion raises.
\<close>

definition senderKey :: "json \<Rightarrow> js_error + string option" where
  "senderKey data =
     (if truthy (field data ''sessionId'')
      then (case field data ''sessionId'' of
              None \<Rightarrow> Inr None
            | Some sid \<Rightarrow>
                (case toPropertyKey sid of Inl e \<Rightarrow> Inl e | Inr k \<Rightarrow> Inr (Some k)))
      else Inr None)"

text \<open>
  The object literal of lines 73--79, built anew for each recipient as the argument of
  \<^verbatim>\<open>send\<close>, so before \<^verbatim>\<open>send\<close> is entered: an error raised while it is built means
  that nothing is sent. \<open>clock c\<close> is \<^verbatim>\<open>new Date().toISOString()\<close> at the moment the
  object for \<open>c\<close> is built. The caller has checked that \<open>data\<close> is not \<^verbatim>\<open>null\<close>, so the
  member reads themselves cannot raise.
\<close>

definition mkMessage ::
  "sessions \<Rightarrow> (conn \<Rightarrow> string) \<Rightarrow> json \<Rightarrow> conn \<Rightarrow> js_error + outbound" where
  "mkMessage ss clock data c =
     (case senderKey data of
        Inl e \<Rightarrow> Inl e
      | Inr None \<Rightarrow>
          Inr (MessageEvent (Str ''system'') (Str ''System'') (field data ''content'') (clock c))
      | Inr (Some k) \<Rightarrow>
          (case sessionsGet ss k of
             None \<Rightarrow>
               Inr (MessageEvent (Str ''system'') (Str ''System'') (field data ''content'')
                      (clock c))
           | Some m \<Rightarrow>
               Inr (MessageEvent (memberUserId m) (memberUsername m) (field data ''content'')
                      (clock c))))"

text \<open>
  \<^verbatim>\<open>wss.clients.forEach((client) => { if (client !== ws) { client.send(...) } })\<close>.
  \<open>sendThrows c\<close> says that \<^verbatim>\<open>send\<close> of \<open>c\<close> raises; an exception thrown by the
  callback, while the message is built or by \<^verbatim>\<open>send\<close>, leaves \<^verbatim>\<open>forEach\<close> at once,
  with the sends made so far in place.
\<close>

fun forEachClient ::
  "(conn \<Rightarrow> bool) \<Rightarrow> conn \<Rightarrow> (conn \<Rightarrow> js_error + outbound) \<Rightarrow> conn list
     \<Rightarrow> (conn \<Rightarrow> outbound list) \<Rightarrow> (conn \<Rightarrow> outbound list) \<times> js_error option" where
  "forEachClient sendThrows ws msg [] ob = (ob, None)"
| "forEachClient sendThrows ws msg (client # rest) ob =
     (if client = ws then forEachClient sendThrows ws msg rest ob
      else (case msg client of
              Inl e \<Rightarrow> (ob, Some e)
            | Inr m \<Rightarrow>
                if sendThrows client then (ob, Some SendError)
                else forEachClient sendThrows ws msg rest (ob(client := ob client @ [m]))))"

text \<open>The body of the \<^verbatim>\<open>try\<close> block, lines 66--82.\<close>

definition onMessageBody ::
  "sessions \<Rightarrow> (conn \<Rightarrow> bool) \<Rightarrow> (conn \<Rightarrow> string) \<Rightarrow> conn \<Rightarrow> payload \<Rightarrow> ws_state
     \<Rightarrow> ws_state \<times> js_error option" where
  "onMessageBody ss sendThrows clock ws p st =
     (let st1 = st\<lparr>console := console st @ [Received]\<rparr> in
      case p of
        Unparseable \<Rightarrow> (st1, Some SyntaxError)
      | Parsed data \<Rightarrow>
          (case getField data ''type'' of
             Inl e \<Rightarrow> (st1, Some e)
           | Inr t \<Rightarrow>
               if t = Some (JStr ''message'')
               then (case forEachClient sendThrows ws (mkMessage ss clock data)
                            (clients st1) (outbox st1) of
                       (ob, err) \<Rightarrow> (st1\<lparr>outbox := ob\<rparr>, err))
               else (st1, None)))"

text \<open>The handler of line 64 with its \<^verbatim>\<open>catch\<close>: the error is logged and goes no further.\<close>

definition onMessage ::
  "sessions \<Rightarrow> (conn \<Rightarrow> bool) \<Rightarrow> (conn \<Rightarrow> string) \<Rightarrow> conn \<Rightarrow> payload \<Rightarrow> ws_state \<Rightarrow> ws_state" where
  "onMessage ss sendThrows clock ws p st =
     (case onMessageBody ss sendThrows clock ws p st of
        (st', None) \<Rightarrow> st'
      | (st', Some e) \<Rightarrow> st'\<lparr>console := console st' @ [WebSocketMessageError e]\<rparr>)"

text \<open>A frame the fan-out accepts: it parses, and its \<^verbatim>\<open>type\<close> is the string \<^verbatim>\<open>"message"\<close>.\<close>

definition isMessageEvent :: "payload \<Rightarrow> bool" where
  "isMessageEvent p =
     (case p of
        Unparseable \<Rightarrow> False
      | Parsed data \<Rightarrow> getField data ''type'' = Inr (Some (JStr ''message'')))"

definition dataOf :: "payload \<Rightarrow> json" where
  "dataOf p = (case p of Unparseable \<Rightarrow> JNull | Parsed data \<Rightarrow> data)"

section \<open>Authentication\<close>

text \<open>
  \<open>authorization\<close> is \<^verbatim>\<open>req.headers.authorization\<close> (\<open>None\<close> when the header is
  absent), \<open>user\<close> is \<^verbatim>\<open>req.user\<close>, \<open>file_part\<close> is the multipart part named \<^verbatim>\<open>file\<close>
  as the client sent it, and \<open>file_r\<close> is \<^verbatim>\<open>req.file\<close>, which only the upload
  middleware sets.
\<close>

record upload_file =
  originalname :: string
  mimetype :: string
  path :: string
  size_f :: nat

record js_user =
  user_id :: js_val
  user_username :: js_val

record request =
  authorization :: "string option"
  user :: "js_user option"
  file_part :: "upload_file option"
  file_r :: "upload_file option"

datatype media_type = Pdf | Video

datatype content_status = Processing | Complete | Failed

record insert_content =
  userId_c :: js_val
  filename :: string
  type_c :: media_type
  filePath :: string
  fileSize :: nat
  status :: content_status
  summary :: "string option"

record content = insert_content +
  id_c :: nat

datatype response_body = MessageBody string | ContentBody content

text \<open>The outcome of a middleware: it calls \<^verbatim>\<open>next()\<close> or it answers.\<close>

datatype middleware_result = Next request | Respond nat response_body

text \<open>
  Lines 156--165. \<^verbatim>\<open>!sessionId\<close> holds for a missing header and for the empty string;
  \<^verbatim>\<open>!sessions[sessionId]\<close> holds when the read finds nothing, own or inherited.
\<close>

definition authenticate :: "sessions \<Rightarrow> request \<Rightarrow> middleware_result" where
  "authenticate ss req =
     (case authorization req of
        None \<Rightarrow> Respond 401 (MessageBody ''Unauthorized'')
      | Some sessionId \<Rightarrow>
          if sessionId = [] then Respond 401 (MessageBody ''Unauthorized'')
          else (case sessionsGet ss sessionId of
                  None \<Rightarrow> Respond 401 (MessageBody ''Unauthorized'')
                | Some m \<Rightarrow>
                    Next (req\<lparr>user := Some \<lparr>user_id = memberUserId m,
                                             user_username = memberUsername m\<rparr>\<rparr>)))"

text \<open>
  Lines 168--178, registered with \<^verbatim>\<open>app.use\<close> ahead of every route that names
  \<^verbatim>\<open>authenticate\<close>. \<open>users\<close> is what \<^verbatim>\<open>storage.getAllUsers()\<close> returned and \<open>fresh\<close>
  is \<^verbatim>\<open>Math.random().toString(36).substring(2, 15)\<close>, a word over digits and lower-case
  letters (empty when the draw is exactly \<open>0\<close>).
\<close>

record user_row =
  row_id :: nat
  row_username :: string

definition autoLogin ::
  "user_row list \<Rightarrow> string \<Rightarrow> sessions \<Rightarrow> request \<Rightarrow> sessions \<times> request" where
  "autoLogin users fresh ss req =
     (if authorization req = None \<or> authorization req = Some []
      then (case users of
              [] \<Rightarrow> (ss, req)
            | u # others \<Rightarrow>
                (ss(fresh \<mapsto> \<lparr>userId = row_id u, username = row_username u\<rparr>),
                 req\<lparr>authorization := Some fresh\<rparr>))
      else (ss, req))"

text \<open>What every authenticated route does first: the bootstrap, then \<^verbatim>\<open>authenticate\<close>.\<close>

definition guarded ::
  "user_row list \<Rightarrow> string \<Rightarrow> sessions \<Rightarrow> request \<Rightarrow> sessions \<times> middleware_result" where
  "guarded users fresh ss req =
     (case autoLogin users fresh ss req of (ss', req') \<Rightarrow> (ss', authenticate ss' req'))"

section \<open>Content upload\<close>

subsection \<open>The content store\<close>

record store =
  nextId :: nat
  contents :: "nat \<rightharpoonup> content"

record content_patch =
  patch_summary :: "string option"
  patch_status :: "content_status option"

text \<open>
  Modelled from the spec: \<^verbatim>\<open>storage.createContent\<close> of \<^verbatim>\<open>./storage\<close>, which is not
  part of this file. The specification describes a record store with create, read and
  update keyed by a numeric id: creating stores the given fields under an id no record
  has yet and returns the stored record.
\<close>

definition createContent :: "insert_content \<Rightarrow> store \<Rightarrow> js_error + content \<times> store" where
  "createContent ins st =
     (let c = insert_content.extend ins (content.fields (nextId st))
      in Inr (c, st\<lparr>nextId := Suc (nextId st), contents := (contents st)(nextId st \<mapsto> c)\<rparr>))"

definition applyPatch :: "content_patch \<Rightarrow> content \<Rightarrow> content" where
  "applyPatch p c =
     c\<lparr>summary := (case patch_summary p of None \<Rightarrow> summary c | Some s \<Rightarrow> Some s),
       status := (case patch_status p of None \<Rightarrow> status c | Some s \<Rightarrow> s)\<rparr>"

text \<open>
  Modelled from the spec: \<^verbatim>\<open>storage.updateContent\<close> of \<^verbatim>\<open>./storage\<close>, which is not
  part of this file. The fields named by the patch overwrite those of the stored record
  (last writer wins per field), the others stay; an unknown id changes nothing. The
  update puts a new record value under the id: a record value handed out earlier by
  \<open>createContent\<close> is not changed by it.
\<close>

definition updateContent ::
  "nat \<Rightarrow> content_patch \<Rightarrow> store \<Rightarrow> js_error + content option \<times> store" where
  "updateContent i p st =
     (case contents st i of
        None \<Rightarrow> Inr (None, st)
      | Some c \<Rightarrow> Inr (Some (applyPatch p c), st\<lparr>contents := (contents st)(i \<mapsto> applyPatch p c)\<rparr>))"

subsection \<open>The upload middleware\<close>

definition allowedMimes :: "string list" where
  "allowedMimes = [''application/pdf'', ''video/mp4'']"

definition fileSizeLimit :: nat where
  "fileSizeLimit = 100 * 1024 * 1024"

text \<open>
  \<^verbatim>\<open>upload.single("file")\<close> with the options of lines 419--430. The package asks
  \<^verbatim>\<open>fileFilter\<close> when the part begins and counts the bytes while it streams; a part longer
  than \<^verbatim>\<open>limits.fileSize\<close> ends with its \<^verbatim>\<open>LIMIT_FILE_SIZE\<close> error. Either error is
  given to \<^verbatim>\<open>next(err)\<close>, written \<open>Inl\<close>; neither error object carries an HTTP status.
\<close>

definition uploadSingle :: "request \<Rightarrow> js_error + request" where
  "uploadSingle req =
     (case file_part req of
        None \<Rightarrow> Inr (req\<lparr>file_r := None\<rparr>)
      | Some f \<Rightarrow>
          if mimetype f \<in> set allowedMimes
          then (if fileSizeLimit < size_f f then Inl (MulterError ''LIMIT_FILE_SIZE'')
                else Inr (req\<lparr>file_r := Some f\<rparr>))
          else Inl (JsError ''Invalid file type. Only PDF and MP4 files are allowed.''))"

subsection \<open>The handler of \<^verbatim>\<open>POST /api/content/upload\<close>\<close>

text \<open>
  What the handler does, in the order it does it. Every \<^verbatim>\<open>await\<close> of the handler is
  followed by the next statement only when the awaited call has settled, so one run is
  one sequence of events.
\<close>

datatype event =
    Created content
  | SummarizerCalled string
  | Updated nat content_patch
  | Logged log_entry
  | Responded nat response_body
  | PassedToNext js_error

text \<open>\<^verbatim>\<open>summarizeDocument\<close> of \<^verbatim>\<open>./services/openai\<close>: it returns a text or it raises.\<close>

type_synonym summarizer = "string \<Rightarrow> js_error + string"

definition completePatch :: "string \<Rightarrow> content_patch" where
  "completePatch s = \<lparr>patch_summary = Some s, patch_status = Some Complete\<rparr>"

definition failedPatch :: content_patch where
  "failedPatch = \<lparr>patch_summary = None, patch_status = Some Failed\<rparr>"

definition videoPatch :: content_patch where
  "videoPatch = completePatch ''Video summary is not available in this demo version.''"

text \<open>The inner \<^verbatim>\<open>try\<close> block, lines 454--458.\<close>

definition summarizeAndStore ::
  "summarizer \<Rightarrow> upload_file \<Rightarrow> content \<Rightarrow> store \<Rightarrow> (js_error + unit) \<times> store \<times> event list" where
  "summarizeAndStore summarizeDocument f c st =
     (case summarizeDocument (path f) of
        Inl e \<Rightarrow> (Inl e, st, [SummarizerCalled (path f)])
      | Inr s \<Rightarrow>
          (case updateContent (id_c c) (completePatch s) st of
             Inl e \<Rightarrow> (Inl e, st, [SummarizerCalled (path f)])
           | Inr (r, st') \<Rightarrow>
               (Inr (), st', [SummarizerCalled (path f), Updated (id_c c) (completePatch s)])))"

text \<open>Lines 451--472: the inner \<^verbatim>\<open>try\<close> with its \<^verbatim>\<open>catch\<close>, or the video branch.\<close>

definition processUpload ::
  "summarizer \<Rightarrow> upload_file \<Rightarrow> media_type \<Rightarrow> content \<Rightarrow> store
     \<Rightarrow> (js_error + unit) \<times> store \<times> event list" where
  "processUpload summarizeDocument f fileType c st =
     (if fileType = Pdf
      then (case summarizeAndStore summarizeDocument f c st of
              (Inr u, st', tr) \<Rightarrow> (Inr (), st', tr)
            | (Inl e, st', tr) \<Rightarrow>
                (case updateContent (id_c c) failedPatch st' of
                   Inl e' \<Rightarrow> (Inl e', st', tr @ [Logged (ErrorSummarizingPdf e)])
                 | Inr (r, st'') \<Rightarrow>
                     (Inr (), st'',
                      tr @ [Logged (ErrorSummarizingPdf e), Updated (id_c c) failedPatch])))
      else (case updateContent (id_c c) videoPatch st of
              Inl e \<Rightarrow> (Inl e, st, [])
            | Inr (r, st') \<Rightarrow> (Inr (), st', [Updated (id_c c) videoPatch])))"

text \<open>The outer \<^verbatim>\<open>catch\<close>, lines 475--478.\<close>

definition uploadFailed :: "js_error \<Rightarrow> event list" where
  "uploadFailed e =
     [Logged (ErrorUploadingContent e), Responded 500 (MessageBody ''Failed to upload content'')]"

text \<open>Lines 432--479. Reading \<^verbatim>\<open>req.user.id\<close> of a missing \<^verbatim>\<open>req.user\<close> raises.\<close>

definition uploadHandler :: "summarizer \<Rightarrow> request \<Rightarrow> store \<Rightarrow> store \<times> event list" where
  "uploadHandler summarizeDocument req st =
     (case file_r req of
        None \<Rightarrow> (st, [Responded 400 (MessageBody ''No file uploaded'')])
      | Some f \<Rightarrow>
          (let fileType = (if mimetype f = ''application/pdf'' then Pdf else Video) in
           case user req of
             None \<Rightarrow> (st, uploadFailed TypeError)
           | Some u \<Rightarrow>
               (case createContent
                       \<lparr>userId_c = user_id u, filename = originalname f, type_c = fileType,
                        filePath = path f, fileSize = size_f f, status = Processing,
                        summary = None\<rparr> st of
                  Inl e \<Rightarrow> (st, uploadFailed e)
                | Inr (c, st1) \<Rightarrow>
                    (case processUpload summarizeDocument f fileType c st1 of
                       (Inl e, st2, tr) \<Rightarrow> (st2, Created c # tr @ uploadFailed e)
                     | (Inr u, st2, tr) \<Rightarrow>
                         (st2, Created c # tr @ [Responded 201 (ContentBody c)])))))"

text \<open>The route: \<^verbatim>\<open>authenticate\<close>, then \<^verbatim>\<open>upload.single("file")\<close>, then the handler.\<close>

definition uploadRoute ::
  "sessions \<Rightarrow> summarizer \<Rightarrow> request \<Rightarrow> store \<Rightarrow> store \<times> event list" where
  "uploadRoute ss summarizeDocument req st =
     (case authenticate ss req of
        Respond code body \<Rightarrow> (st, [Responded code body])
      | Next req1 \<Rightarrow>
          (case uploadSingle req1 of
             Inl e \<Rightarrow> (st, [PassedToNext e])
           | Inr req2 \<Rightarrow> uploadHandler summarizeDocument req2 st))"

text \<open>Any number of uploads, one after the other, each with its own summarizer outcome.\<close>

fun serve :: "(summarizer \<times> request) list \<Rightarrow> store \<Rightarrow> store" where
  "serve [] st = st"
| "serve (sr # rest) st = serve rest (fst (uploadHandler (fst sr) (snd sr) st))"

subsection \<open>The object behind \<^verbatim>\<open>content\<close>\<close>





subsection \<open>Vocabulary of the claims\<close>

definition terminal :: "content_status \<Rightarrow> bool" where
  "terminal s = (s = Complete \<or> s = Failed)"

fun isUpdate :: "event \<Rightarrow> bool" where
  "isUpdate (Updated i p) = True"
| "isUpdate (Created c) = False"
| "isUpdate (SummarizerCalled p) = False"
| "isUpdate (Logged l) = False"
| "isUpdate (Responded n b) = False"
| "isUpdate (PassedToNext e) = False"

fun isClientError :: "event \<Rightarrow> bool" where
  "isClientError (Responded code b) = (400 \<le> code \<and> code < 500)"
| "isClientError (Created c) = False"
| "isClientError (SummarizerCalled p) = False"
| "isClientError (Logged l) = False"
| "isClientError (Updated i p) = False"
| "isClientError (PassedToNext e) = False"

text \<open>Every stored id lies below the counter the next record takes its id from.\<close>

definition storeOk :: "store \<Rightarrow> bool" where
  "storeOk st = (\<forall>i \<in> dom (contents st). i < nextId st)"

text \<open>The record the handler asks the store to create for user \<open>u\<close> and file \<open>f\<close>, under id \<open>n\<close>.\<close>

definition newContent :: "js_user \<Rightarrow> upload_file \<Rightarrow> nat \<Rightarrow> content" where
  "newContent u f n =
     \<lparr>userId_c = user_id u, filename = originalname f,
      type_c = (if mimetype f = ''application/pdf'' then Pdf else Video),
      filePath = path f, fileSize = size_f f, status = Processing, summary = None,
      id_c = n\<rparr>"

section \<open>Concrete inputs\<close>

definition hiPayload :: payload where
  "hiPayload = Parsed (JObj [(''type'', JStr ''message''), (''content'', JStr ''hi'')])"

definition numberOne :: js_number where
  "numberOne = Number False ''1''"

definition tokenPayload :: payload where
  "tokenPayload =
     Parsed (JObj [(''type'', JStr ''message''), (''sessionId'', JStr ''tok1''),
                   (''content'', JStr ''hi'')])"

definition objectKeyPayload :: payload where
  "objectKeyPayload =
     Parsed (JObj [(''type'', JStr ''message''),
                   (''sessionId'', JObj [(''toString'', JNum numberOne)]),
                   (''content'', JStr ''hi'')])"

definition pingPayload :: payload where
  "pingPayload = Parsed (JObj [(''type'', JStr ''ping'')])"

definition fixedClock :: "conn \<Rightarrow> string" where
  "fixedClock c = ''2024-01-01T00:00:00.000Z''"

definition noSendThrows :: "conn \<Rightarrow> bool" where
  "noSendThrows c = False"

definition secondSendThrows :: "conn \<Rightarrow> bool" where
  "secondSendThrows c = (c = 2)"

definition firstSendThrows :: "conn \<Rightarrow> bool" where
  "firstSendThrows c = (c = 1)"

definition noSessions :: sessions where
  "noSessions = Map.empty"

definition twoClients :: ws_state where
  "twoClients = \<lparr>clients = [1, 2], outbox = (\<lambda>c. []), console = []\<rparr>"

definition threeClients :: ws_state where
  "threeClients = \<lparr>clients = [1, 2, 3], outbox = (\<lambda>c. []), console = []\<rparr>"

definition aPdf :: upload_file where
  "aPdf = \<lparr>originalname = ''a.pdf'', mimetype = ''application/pdf'',
           path = ''uploads/1-a.pdf'', size_f = 5\<rparr>"

definition aVideo :: upload_file where
  "aVideo = \<lparr>originalname = ''b.mp4'', mimetype = ''video/mp4'',
             path = ''uploads/2-b.mp4'', size_f = 7\<rparr>"

definition anImage :: upload_file where
  "anImage = \<lparr>originalname = ''c.png'', mimetype = ''image/png'',
              path = ''uploads/3-c.png'', size_f = 5\<rparr>"

definition aHugePdf :: upload_file where
  "aHugePdf = \<lparr>originalname = ''d.pdf'', mimetype = ''application/pdf'',
               path = ''uploads/4-d.pdf'', size_f = 104857601\<rparr>"

definition alice :: js_user where
  "alice = \<lparr>user_id = Num 1, user_username = Str ''alice''\<rparr>"

definition aliceSessions :: sessions where
  "aliceSessions = Map.empty(''tok1'' \<mapsto> \<lparr>userId = 1, username = ''alice''\<rparr>)"

definition aliceRows :: "user_row list" where
  "aliceRows = [\<lparr>row_id = 1, row_username = ''alice''\<rparr>]"

text \<open>A request as the client sends it, and as the handler sees it after the middlewares.\<close>

definition sentRequest :: "string option \<Rightarrow> upload_file \<Rightarrow> request" where
  "sentRequest tok f = \<lparr>authorization = tok, user = None, file_part = Some f, file_r = None\<rparr>"

definition handledRequest :: "upload_file \<Rightarrow> request" where
  "handledRequest f =
     \<lparr>authorization = Some ''tok1'', user = Some alice, file_part = Some f, file_r = Some f\<rparr>"

definition emptyStore :: store where
  "emptyStore = \<lparr>nextId = 0, contents = Map.empty\<rparr>"

definition summarizerS :: summarizer where
  "summarizerS p = Inr ''S''"

definition summarizerEmpty :: summarizer where
  "summarizerEmpty p = Inr []"

definition summarizerDown :: summarizer where
  "summarizerDown p = Inl (JsError ''Failed to summarize document'')"

section \<open>Properties of the real-time channel\<close>

lemma forEachClient_sender_untouched:
  "fst (forEachClient sendThrows ws msg cs ob) ws = ob ws"
  by (induction cs arbitrary: ob) (auto split: sum.splits)

lemma forEachClient_outside:
  "c \<notin> set cs \<Longrightarrow> fst (forEachClient sendThrows ws msg cs ob) c = ob c"
  by (induction cs arbitrary: ob) (auto split: sum.splits)

lemma forEachClient_prefix:
  "distinct pre \<Longrightarrow>
   (\<And>c. c \<in> set pre \<Longrightarrow> c \<noteq> ws \<Longrightarrow> \<not> sendThrows c \<and> msg c = Inr (m c)) \<Longrightarrow>
   forEachClient sendThrows ws msg (pre @ rest) ob =
     forEachClient sendThrows ws msg rest
       (\<lambda>c. if c \<in> set pre \<and> c \<noteq> ws then ob c @ [m c] else ob c)"
proof (induction pre arbitrary: ob)
  case Nil
  show ?case by simp
next
  case (Cons a pre)
  have step: "\<And>ob'. forEachClient sendThrows ws msg (pre @ rest) ob' =
      forEachClient sendThrows ws msg rest
        (\<lambda>c. if c \<in> set pre \<and> c \<noteq> ws then ob' c @ [m c] else ob' c)"
    using Cons.IH Cons.prems by simp
  show ?case
  proof (cases "a = ws")
    case True
    then have "(\<lambda>c. if c \<in> set pre \<and> c \<noteq> ws then ob c @ [m c] else ob c) =
               (\<lambda>c. if c \<in> set (a # pre) \<and> c \<noteq> ws then ob c @ [m c] else ob c)"
      by (auto simp: fun_eq_iff)
    with True show ?thesis by (simp add: step)
  next
    case False
    with Cons.prems have a: "\<not> sendThrows a" "msg a = Inr (m a)" "a \<notin> set pre" by auto
    have "(\<lambda>c. if c \<in> set pre \<and> c \<noteq> ws
                then (ob(a := ob a @ [m a])) c @ [m c] else (ob(a := ob a @ [m a])) c) =
          (\<lambda>c. if c \<in> set (a # pre) \<and> c \<noteq> ws then ob c @ [m c] else ob c)"
      using False a(3) by (auto simp: fun_eq_iff)
    with False a show ?thesis by (simp add: step)
  qed
qed

lemma mkMessage_built:
  assumes "senderKey data = Inr k"
  shows "mkMessage ss clock data c =
     Inr (case k of
            None \<Rightarrow> MessageEvent (Str ''system'') (Str ''System'') (field data ''content'') (clock c)
          | Some key \<Rightarrow>
              (case ss key of
                 Some s \<Rightarrow>
                   MessageEvent (Num (userId s)) (Str (username s)) (field data ''content'')
                     (clock c)
               | None \<Rightarrow>
                   if key \<in> set objectPrototypeKeys
                   then MessageEvent Undefined Undefined (field data ''content'') (clock c)
                   else MessageEvent (Str ''system'') (Str ''System'') (field data ''content'')
                          (clock c)))"
  using assms by (simp add: mkMessage_def sessionsGet_def split: option.splits)

lemma onMessage_message_event:
  assumes "isMessageEvent p"
  shows "onMessage ss sendThrows clock ws p st =
     (case forEachClient sendThrows ws (mkMessage ss clock (dataOf p)) (clients st) (outbox st) of
        (ob, None) \<Rightarrow> st\<lparr>console := console st @ [Received], outbox := ob\<rparr>
      | (ob, Some e) \<Rightarrow>
          st\<lparr>console := console st @ [Received, WebSocketMessageError e], outbox := ob\<rparr>)"
proof (cases p)
  case Unparseable
  with assms show ?thesis by (simp add: isMessageEvent_def)
next
  case (Parsed data)
  with assms have t: "getField data ''type'' = Inr (Some (JStr ''message''))"
    by (simp add: isMessageEvent_def)
  show ?thesis
    unfolding onMessage_def onMessageBody_def Parsed
    by (simp add: t dataOf_def Let_def split: prod.splits option.splits)
qed

lemma onMessage_outbox:
  assumes "isMessageEvent p"
  shows "outbox (onMessage ss sendThrows clock ws p st) =
     fst (forEachClient sendThrows ws (mkMessage ss clock (dataOf p)) (clients st) (outbox st))"
  by (simp add: onMessage_message_event [OF assms] split: prod.splits option.splits)

lemma hi_facts:
  "isMessageEvent hiPayload" "senderKey (dataOf hiPayload) = Inr None"
  "field (dataOf hiPayload) ''content'' = Some (JStr ''hi'')"
  by (simp_all add: hiPayload_def isMessageEvent_def dataOf_def senderKey_def field_def)

lemma token_facts:
  "isMessageEvent tokenPayload" "senderKey (dataOf tokenPayload) = Inr (Some ''tok1'')"
  "field (dataOf tokenPayload) ''content'' = Some (JStr ''hi'')"
  by (simp_all add: tokenPayload_def isMessageEvent_def dataOf_def senderKey_def field_def)

lemma objectKey_facts:
  "isMessageEvent objectKeyPayload" "senderKey (dataOf objectKeyPayload) = Inl TypeError"
  by (simp_all add: objectKeyPayload_def isMessageEvent_def dataOf_def senderKey_def field_def)

text \<open>
  C4, as the specification states it, fails in two ways. A frame of kind \<^verbatim>\<open>"message"\<close>
  whose \<^verbatim>\<open>sessionId\<close> is the object \<^verbatim>\<open>{"toString": 1}\<close> raises a TypeError while the
  outbound message is built: with the clients \<open>1, 2\<close> registered and every send
  working, client \<open>2\<close> is handed nothing and the error is logged. And with the clients
  \<open>1, 2, 3\<close> registered, a frame received on \<open>3\<close> and a send to \<open>1\<close> that raises,
  client \<open>2\<close> is handed nothing either, although its own send would have worked.
\<close>

theorem message_can_miss_other_client:
  "isMessageEvent objectKeyPayload \<and> clients twoClients = [1, 2] \<and> \<not> noSendThrows 2
   \<and> outbox (onMessage noSessions noSendThrows fixedClock 1 objectKeyPayload twoClients) 2 = []
   \<and> console (onMessage noSessions noSendThrows fixedClock 1 objectKeyPayload twoClients) =
       [Received, WebSocketMessageError TypeError]
   \<and> isMessageEvent hiPayload \<and> clients threeClients = [1, 2, 3] \<and> \<not> firstSendThrows 2
   \<and> outbox (onMessage noSessions firstSendThrows fixedClock 3 hiPayload threeClients) 2 = []"
proof -
  have a: "mkMessage noSessions fixedClock (dataOf objectKeyPayload) = (\<lambda>c. Inl TypeError)"
    by (simp add: mkMessage_def objectKey_facts fun_eq_iff)
  have b: "\<And>c. mkMessage noSessions fixedClock (dataOf hiPayload) c =
      Inr (MessageEvent (Str ''system'') (Str ''System'') (Some (JStr ''hi'')) (fixedClock c))"
    by (simp add: mkMessage_def hi_facts)
  show ?thesis
    by (simp add: onMessage_message_event [OF objectKey_facts(1)]
          onMessage_message_event [OF hi_facts(1)] hi_facts(1) objectKey_facts(1) a b
          twoClients_def threeClients_def noSendThrows_def firstSendThrows_def)
qed

text \<open>
  C4, amended. For two distinct registered connections \<open>c1\<close> and \<open>c2\<close>, a frame of kind
  \<^verbatim>\<open>"message"\<close> received on \<open>c1\<close> is never handed to \<open>c1\<close> itself, whatever else
  happens. It is handed to \<open>c2\<close>, once, whenever the key of its sender can be computed
  (its \<^verbatim>\<open>sessionId\<close> is falsy, or converts to a property key \<open>key\<close>) and no send raises
  for \<open>c2\<close> or for a recipient walked before \<open>c2\<close>. The message carries the \<^verbatim>\<open>content\<close>
  of the frame and the time of its own send; its sender is the user of the session
  stored under \<open>key\<close>, \<^verbatim>\<open>undefined\<close> twice when no session is stored there but \<open>key\<close>
  names a member of \<^verbatim>\<open>Object.prototype\<close>, and \<^verbatim>\<open>"system"\<close>/\<^verbatim>\<open>"System"\<close> otherwise.
\<close>

theorem message_reaches_other_never_sender:
  assumes "clients st = pre @ c2 # post" and "distinct (clients st)"
    and "c1 \<in> set (clients st)" and "c1 \<noteq> c2"
    and "isMessageEvent p"
  shows "outbox (onMessage ss sendThrows clock c1 p st) c1 = outbox st c1 \<and>
         (\<forall>k. senderKey (dataOf p) = Inr k \<and> \<not> sendThrows c2 \<and>
               (\<forall>c \<in> set pre. c \<noteq> c1 \<longrightarrow> \<not> sendThrows c) \<longrightarrow>
            outbox (onMessage ss sendThrows clock c1 p st) c2 =
              outbox st c2 @
                [case k of
                   None \<Rightarrow>
                     MessageEvent (Str ''system'') (Str ''System'')
                       (field (dataOf p) ''content'') (clock c2)
                 | Some key \<Rightarrow>
                     (case ss key of
                        Some s \<Rightarrow>
                          MessageEvent (Num (userId s)) (Str (username s))
                            (field (dataOf p) ''content'') (clock c2)
                      | None \<Rightarrow>
                          if key \<in> set objectPrototypeKeys
                          then MessageEvent Undefined Undefined
                                 (field (dataOf p) ''content'') (clock c2)
                          else MessageEvent (Str ''system'') (Str ''System'')
                                 (field (dataOf p) ''content'') (clock c2))])"
proof (intro conjI allI impI)
  show "outbox (onMessage ss sendThrows clock c1 p st) c1 = outbox st c1"
    by (simp add: onMessage_outbox [OF assms(5)] forEachClient_sender_untouched)
next
  fix k
  assume h: "senderKey (dataOf p) = Inr k \<and> \<not> sendThrows c2 \<and>
             (\<forall>c \<in> set pre. c \<noteq> c1 \<longrightarrow> \<not> sendThrows c)"
  let ?m = "\<lambda>c. case k of
                   None \<Rightarrow>
                     MessageEvent (Str ''system'') (Str ''System'')
                       (field (dataOf p) ''content'') (clock c)
                 | Some key \<Rightarrow>
                     (case ss key of
                        Some s \<Rightarrow>
                          MessageEvent (Num (userId s)) (Str (username s))
                            (field (dataOf p) ''content'') (clock c)
                      | None \<Rightarrow>
                          if key \<in> set objectPrototypeKeys
                          then MessageEvent Undefined Undefined
                                 (field (dataOf p) ''content'') (clock c)
                          else MessageEvent (Str ''system'') (Str ''System'')
                                 (field (dataOf p) ''content'') (clock c))"
  let ?msg = "mkMessage ss clock (dataOf p)"
  let ?ob = "\<lambda>c. if c \<in> set pre \<and> c \<noteq> c1 then outbox st c @ [?m c] else outbox st c"
  have built: "\<And>c. ?msg c = Inr (?m c)"
    using h by (simp add: mkMessage_built)
  from assms(1,2) have d: "distinct pre" "c2 \<notin> set pre" "c2 \<notin> set post"
    by auto
  have "forEachClient sendThrows c1 ?msg (pre @ c2 # post) (outbox st) =
          forEachClient sendThrows c1 ?msg (c2 # post) ?ob"
    using d(1) h built by (intro forEachClient_prefix) auto
  also have "\<dots> = forEachClient sendThrows c1 ?msg post (?ob(c2 := ?ob c2 @ [?m c2]))"
    using assms(4) h built by simp
  finally have "fst (forEachClient sendThrows c1 ?msg (clients st) (outbox st)) c2 =
                  (?ob(c2 := ?ob c2 @ [?m c2])) c2"
    using d(3) by (simp add: assms(1) forEachClient_outside)
  also have "\<dots> = outbox st c2 @ [?m c2]"
    using d(2) by simp
  finally show "outbox (onMessage ss sendThrows clock c1 p st) c2 = outbox st c2 @ [?m c2]"
    by (simp add: onMessage_outbox [OF assms(5)])
qed

theorem message_reaches_other_never_sender_witness:
  "clients twoClients = [1] @ 2 # [] \<and> distinct (clients twoClients)
   \<and> 1 \<in> set (clients twoClients) \<and> (1::nat) \<noteq> 2
   \<and> isMessageEvent hiPayload \<and> senderKey (dataOf hiPayload) = Inr None
   \<and> isMessageEvent tokenPayload \<and> senderKey (dataOf tokenPayload) = Inr (Some ''tok1'')
   \<and> \<not> noSendThrows 2
   \<and> outbox (onMessage noSessions noSendThrows fixedClock 1 hiPayload twoClients) 1 = []
   \<and> outbox (onMessage noSessions noSendThrows fixedClock 1 hiPayload twoClients) 2 =
       [MessageEvent (Str ''system'') (Str ''System'') (Some (JStr ''hi''))
          ''2024-01-01T00:00:00.000Z'']
   \<and> outbox (onMessage aliceSessions noSendThrows fixedClock 1 tokenPayload twoClients) 2 =
       [MessageEvent (Num 1) (Str ''alice'') (Some (JStr ''hi''))
          ''2024-01-01T00:00:00.000Z'']"
proof -
  have h: "clients twoClients = [1] @ 2 # []" "distinct (clients twoClients)"
    "1 \<in> set (clients twoClients)" "(1::nat) \<noteq> 2"
    by (simp_all add: twoClients_def)
  have quiet: "\<not> noSendThrows 2" "\<forall>c \<in> set [1::nat]. c \<noteq> 1 \<longrightarrow> \<not> noSendThrows c"
    by (simp_all add: noSendThrows_def)
  have o: "outbox twoClients = (\<lambda>c. [])"
    "fixedClock 2 = ''2024-01-01T00:00:00.000Z''"
    "aliceSessions ''tok1'' = Some \<lparr>userId = 1, username = ''alice''\<rparr>"
    by (simp_all add: twoClients_def fixedClock_def aliceSessions_def)
  note hi = message_reaches_other_never_sender
              [OF h hi_facts(1), of noSessions noSendThrows fixedClock]
  note tok = message_reaches_other_never_sender
              [OF h token_facts(1), of aliceSessions noSendThrows fixedClock]
  have own: "outbox (onMessage noSessions noSendThrows fixedClock 1 hiPayload twoClients) 1 = []"
    using conjunct1 [OF hi] by (simp add: o)
  have other: "outbox (onMessage noSessions noSendThrows fixedClock 1 hiPayload twoClients) 2 =
       [MessageEvent (Str ''system'') (Str ''System'') (Some (JStr ''hi''))
          ''2024-01-01T00:00:00.000Z'']"
    using conjunct2 [OF hi, rule_format, of None] quiet
    by (simp add: hi_facts o)
  have named: "outbox (onMessage aliceSessions noSendThrows fixedClock 1 tokenPayload twoClients) 2 =
       [MessageEvent (Num 1) (Str ''alice'') (Some (JStr ''hi''))
          ''2024-01-01T00:00:00.000Z'']"
    using conjunct2 [OF tok, rule_format, of "Some ''tok1''"] quiet
    by (simp add: token_facts o)
  show ?thesis
    by (intro conjI h hi_facts(1,2) token_facts(1,2) quiet(1) own other named)
qed

text \<open>
  C5, as the specification states it, fails: with the clients \<open>1, 2, 3\<close> registered in
  that order, a frame received on \<open>1\<close> and a send to \<open>2\<close> that raises, the exception
  leaves the loop and client \<open>3\<close>, whose own send would have succeeded, is handed
  nothing.
\<close>

theorem failed_send_starves_later_clients:
  "isMessageEvent hiPayload \<and> 3 \<in> set (clients threeClients) \<and> \<not> secondSendThrows 3
   \<and> outbox (onMessage noSessions secondSendThrows fixedClock 1 hiPayload threeClients) 3 = []"
proof -
  have b: "\<And>c. mkMessage noSessions fixedClock (dataOf hiPayload) c =
      Inr (MessageEvent (Str ''system'') (Str ''System'') (Some (JStr ''hi'')) (fixedClock c))"
    by (simp add: mkMessage_def hi_facts)
  show ?thesis
    by (simp add: onMessage_message_event [OF hi_facts(1)] hi_facts(1) b
          threeClients_def secondSendThrows_def)
qed

text \<open>
  C5, amended. For a frame of kind \<^verbatim>\<open>"message"\<close> whose sender key can be computed, a
  send that raises is contained by the handler's \<^verbatim>\<open>catch\<close>: it is logged, the set of
  registered connections is left as it was, the recipients walked before the failing
  one keep the message they were handed, and the failing recipient and those after it
  are handed nothing for this frame.
\<close>

theorem failed_send_is_contained:
  assumes "clients st = pre @ f # post" and "distinct (clients st)"
    and "sendThrows f" and "f \<noteq> ws"
    and "\<forall>c \<in> set pre. c \<noteq> ws \<longrightarrow> \<not> sendThrows c"
    and "isMessageEvent p" and "senderKey (dataOf p) = Inr k"
  shows "clients (onMessage ss sendThrows clock ws p st) = clients st \<and>
         outbox (onMessage ss sendThrows clock ws p st) =
           (\<lambda>c. if c \<in> set pre \<and> c \<noteq> ws
                 then outbox st c @
                   [case k of
                      None \<Rightarrow>
                        MessageEvent (Str ''system'') (Str ''System'')
                          (field (dataOf p) ''content'') (clock c)
                    | Some key \<Rightarrow>
                        (case ss key of
                           Some s \<Rightarrow>
                             MessageEvent (Num (userId s)) (Str (username s))
                               (field (dataOf p) ''content'') (clock c)
                         | None \<Rightarrow>
                             if key \<in> set objectPrototypeKeys
                             then MessageEvent Undefined Undefined
                                    (field (dataOf p) ''content'') (clock c)
                             else MessageEvent (Str ''system'') (Str ''System'')
                                    (field (dataOf p) ''content'') (clock c))]
                 else outbox st c) \<and>
         console (onMessage ss sendThrows clock ws p st) =
           console st @ [Received, WebSocketMessageError SendError]"
proof -
  let ?m = "\<lambda>c. case k of
                   None \<Rightarrow>
                     MessageEvent (Str ''system'') (Str ''System'')
                       (field (dataOf p) ''content'') (clock c)
                 | Some key \<Rightarrow>
                     (case ss key of
                        Some s \<Rightarrow>
                          MessageEvent (Num (userId s)) (Str (username s))
                            (field (dataOf p) ''content'') (clock c)
                      | None \<Rightarrow>
                          if key \<in> set objectPrototypeKeys
                          then MessageEvent Undefined Undefined
                                 (field (dataOf p) ''content'') (clock c)
                          else MessageEvent (Str ''system'') (Str ''System'')
                                 (field (dataOf p) ''content'') (clock c))"
  let ?msg = "mkMessage ss clock (dataOf p)"
  let ?ob = "\<lambda>c. if c \<in> set pre \<and> c \<noteq> ws then outbox st c @ [?m c] else outbox st c"
  have built: "\<And>c. ?msg c = Inr (?m c)"
    using assms(7) by (simp add: mkMessage_built)
  from assms(1,2) have d: "distinct pre" by auto
  have "forEachClient sendThrows ws ?msg (pre @ f # post) (outbox st) =
          forEachClient sendThrows ws ?msg (f # post) ?ob"
    using d assms(5) built by (intro forEachClient_prefix) auto
  also have "\<dots> = (?ob, Some SendError)"
    using assms(3,4) built by simp
  finally show ?thesis
    by (simp add: onMessage_message_event [OF assms(6)] assms(1))
qed

theorem failed_send_is_contained_witness:
  "clients threeClients = [1] @ 2 # [3] \<and> distinct (clients threeClients)
   \<and> secondSendThrows 2 \<and> (2::nat) \<noteq> 3
   \<and> \<not> secondSendThrows 1
   \<and> isMessageEvent hiPayload \<and> senderKey (dataOf hiPayload) = Inr None
   \<and> clients (onMessage noSessions secondSendThrows fixedClock 3 hiPayload threeClients) = [1, 2, 3]
   \<and> outbox (onMessage noSessions secondSendThrows fixedClock 3 hiPayload threeClients) 1 =
       [MessageEvent (Str ''system'') (Str ''System'') (Some (JStr ''hi''))
          ''2024-01-01T00:00:00.000Z'']
   \<and> outbox (onMessage noSessions secondSendThrows fixedClock 3 hiPayload threeClients) 2 = []
   \<and> console (onMessage noSessions secondSendThrows fixedClock 3 hiPayload threeClients) =
       [Received, WebSocketMessageError SendError]"
proof -
  have h: "clients threeClients = [1] @ 2 # [3]" "distinct (clients threeClients)"
    "secondSendThrows 2" "(2::nat) \<noteq> 3"
    "\<forall>c \<in> set [1::nat]. c \<noteq> 3 \<longrightarrow> \<not> secondSendThrows c"
    by (simp_all add: threeClients_def secondSendThrows_def)
  have o: "outbox threeClients = (\<lambda>c. [])" "console threeClients = []"
    "fixedClock 1 = ''2024-01-01T00:00:00.000Z''"
    by (simp_all add: threeClients_def fixedClock_def)
  have quiet: "\<not> secondSendThrows 1"
    by (simp add: secondSendThrows_def)
  show ?thesis
    using failed_send_is_contained
            [OF h hi_facts(1,2), of noSessions fixedClock]
          h o hi_facts quiet
    by simp
qed

text \<open>
  C6. A malformed frame, one that does not parse or whose parsed value is not of kind
  \<^verbatim>\<open>"message"\<close> (reading \<^verbatim>\<open>type\<close> of \<^verbatim>\<open>null\<close> raises and is caught the same way),
  reaches no connection: every outbox, the sender's included, is as before, and the
  registered connections are as before. Whatever was raised ends in the console.
\<close>

theorem malformed_frame_is_dropped:
  assumes "\<not> isMessageEvent p"
  shows "outbox (onMessage ss sendThrows clock ws p st) = outbox st \<and>
         clients (onMessage ss sendThrows clock ws p st) = clients st"
proof (cases p)
  case Unparseable
  then show ?thesis by (simp add: onMessage_def onMessageBody_def Let_def)
next
  case (Parsed data)
  with assms have "getField data ''type'' \<noteq> Inr (Some (JStr ''message''))"
    by (simp add: isMessageEvent_def)
  then show ?thesis
    unfolding onMessage_def onMessageBody_def Parsed
    by (cases "getField data ''type''") (simp_all add: Let_def)
qed

theorem malformed_frame_is_dropped_witness:
  "\<not> isMessageEvent Unparseable \<and> \<not> isMessageEvent pingPayload \<and> \<not> isMessageEvent (Parsed JNull)
   \<and> outbox (onMessage noSessions noSendThrows fixedClock 1 Unparseable twoClients) 2 = []
   \<and> outbox (onMessage noSessions noSendThrows fixedClock 1 pingPayload twoClients) 2 = []
   \<and> outbox (onMessage noSessions noSendThrows fixedClock 1 (Parsed JNull) twoClients) 1 = []
   \<and> clients (onMessage noSessions noSendThrows fixedClock 1 Unparseable twoClients) = [1, 2]"
proof -
  have h: "\<not> isMessageEvent Unparseable" "\<not> isMessageEvent pingPayload"
    "\<not> isMessageEvent (Parsed JNull)"
    by (simp_all add: isMessageEvent_def pingPayload_def)
  have o: "outbox twoClients = (\<lambda>c. [])" "clients twoClients = [1, 2]"
    by (simp_all add: twoClients_def)
  show ?thesis
    using malformed_frame_is_dropped [OF h(1), of noSessions noSendThrows fixedClock 1 twoClients]
          malformed_frame_is_dropped [OF h(2), of noSessions noSendThrows fixedClock 1 twoClients]
          malformed_frame_is_dropped [OF h(3), of noSessions noSendThrows fixedClock 1 twoClients]
          h o
    by simp
qed

section \<open>Properties of the upload route\<close>

lemma createContent_eq:
  "createContent \<lparr>userId_c = user_id u, filename = originalname f,
        type_c = (if mimetype f = ''application/pdf'' then Pdf else Video),
        filePath = path f, fileSize = size_f f, status = Processing, summary = None\<rparr> st =
     Inr (newContent u f (nextId st),
          st\<lparr>nextId := Suc (nextId st),
             contents := (contents st)(nextId st \<mapsto> newContent u f (nextId st))\<rparr>)"
  by (simp add: createContent_def newContent_def insert_content.defs content.defs Let_def)

lemma updateContent_created:
  "updateContent n p (st\<lparr>nextId := Suc n, contents := (contents st)(n \<mapsto> c)\<rparr>) =
     Inr (Some (applyPatch p c),
          st\<lparr>nextId := Suc n, contents := (contents st)(n \<mapsto> applyPatch p c)\<rparr>)"
  by (simp add: updateContent_def)

lemma newContent_sel [simp]:
  "id_c (newContent u f n) = n"
  "status (newContent u f n) = Processing"
  "summary (newContent u f n) = None"
  "type_c (newContent u f n) = (if mimetype f = ''application/pdf'' then Pdf else Video)"
  by (simp_all add: newContent_def)

lemma uploadHandler_pdf_ok:
  assumes "file_r req = Some f" and "user req = Some u"
    and "mimetype f = ''application/pdf''" and "summarizeDocument (path f) = Inr s"
  shows "uploadHandler summarizeDocument req st =
     (st\<lparr>nextId := Suc (nextId st),
         contents := (contents st)(nextId st \<mapsto>
            applyPatch (completePatch s) (newContent u f (nextId st)))\<rparr>,
      [Created (newContent u f (nextId st)), SummarizerCalled (path f),
       Updated (nextId st) (completePatch s),
       Responded 201 (ContentBody (newContent u f (nextId st)))])"
  using assms(3,4)
  by (simp add: uploadHandler_def assms(1,2) createContent_eq [of u f st, simplified assms(3), simplified]
        processUpload_def summarizeAndStore_def updateContent_created)

lemma uploadHandler_pdf_failed:
  assumes "file_r req = Some f" and "user req = Some u"
    and "mimetype f = ''application/pdf''" and "summarizeDocument (path f) = Inl e"
  shows "uploadHandler summarizeDocument req st =
     (st\<lparr>nextId := Suc (nextId st),
         contents := (contents st)(nextId st \<mapsto>
            applyPatch failedPatch (newContent u f (nextId st)))\<rparr>,
      [Created (newContent u f (nextId st)), SummarizerCalled (path f),
       Logged (ErrorSummarizingPdf e), Updated (nextId st) failedPatch,
       Responded 201 (ContentBody (newContent u f (nextId st)))])"
  using assms(3,4)
  by (simp add: uploadHandler_def assms(1,2) createContent_eq [of u f st, simplified assms(3), simplified]
        processUpload_def summarizeAndStore_def updateContent_created)

lemma uploadHandler_video:
  assumes "file_r req = Some f" and "user req = Some u"
    and "mimetype f \<noteq> ''application/pdf''"
  shows "uploadHandler summarizeDocument req st =
     (st\<lparr>nextId := Suc (nextId st),
         contents := (contents st)(nextId st \<mapsto>
            applyPatch videoPatch (newContent u f (nextId st)))\<rparr>,
      [Created (newContent u f (nextId st)),
       Updated (nextId st) videoPatch,
       Responded 201 (ContentBody (newContent u f (nextId st)))])"
  using assms(3)
  by (simp add: uploadHandler_def assms(1,2) createContent_eq [of u f st, simplified assms(3), simplified]
        processUpload_def updateContent_created)

lemma uploadRoute_accepted:
  assumes "authenticate ss req = Next req1" and "file_part req = Some f"
    and "mimetype f \<in> set allowedMimes" and "size_f f \<le> fileSizeLimit"
  shows "uploadRoute ss summarizeDocument req st =
           uploadHandler summarizeDocument (req1\<lparr>file_r := Some f\<rparr>) st"
proof -
  from assms(1) have "file_part req1 = file_part req"
    by (auto simp: authenticate_def split: option.splits if_splits)
  with assms(2-4) have "uploadSingle req1 = Inr (req1\<lparr>file_r := Some f\<rparr>)"
    by (simp add: uploadSingle_def)
  then show ?thesis by (simp add: uploadRoute_def assms(1))
qed

lemma authenticate_alice:
  "authenticate aliceSessions (sentRequest (Some ''tok1'') f) =
     Next ((sentRequest (Some ''tok1'') f)\<lparr>user := Some alice\<rparr>)"
  by (simp add: authenticate_def aliceSessions_def sentRequest_def sessionsGet_def alice_def)

text \<open>
  C1 asks that the caller has the created record in hand before the record leaves
  \<open>Processing\<close>. The handler announces as much (\<^verbatim>\<open>// Start async processing\<close>) and
  then awaits the summarizer and the store before it writes the response. For the
  5-byte \<^verbatim>\<open>a.pdf\<close> whose summary is \<^verbatim>\<open>"S"\<close>, the run from the client's request is:
  create, summarize, update to \<open>Complete\<close>, and only then the 201 response.
\<close>

theorem response_sent_after_transition:
  "uploadRoute aliceSessions summarizerS (sentRequest (Some ''tok1'') aPdf) emptyStore =
     (\<lparr>nextId = 1,
       contents = Map.empty(0 \<mapsto> (newContent alice aPdf 0)\<lparr>summary := Some ''S'', status := Complete\<rparr>)\<rparr>,
      [Created (newContent alice aPdf 0),
       SummarizerCalled ''uploads/1-a.pdf'',
       Updated 0 \<lparr>patch_summary = Some ''S'', patch_status = Some Complete\<rparr>,
       Responded 201 (ContentBody (newContent alice aPdf 0))])"
proof -
  have f: "file_part (sentRequest (Some ''tok1'') aPdf) = Some aPdf"
    "mimetype aPdf \<in> set allowedMimes" "size_f aPdf \<le> fileSizeLimit"
    "mimetype aPdf = ''application/pdf''" "summarizerS (path aPdf) = Inr ''S''"
    "path aPdf = ''uploads/1-a.pdf''"
    by (simp_all add: sentRequest_def aPdf_def allowedMimes_def fileSizeLimit_def summarizerS_def)
  have r: "file_r ((sentRequest (Some ''tok1'') aPdf)\<lparr>user := Some alice, file_r := Some aPdf\<rparr>) = Some aPdf"
    "user ((sentRequest (Some ''tok1'') aPdf)\<lparr>user := Some alice, file_r := Some aPdf\<rparr>) = Some alice"
    by simp_all
  show ?thesis
    unfolding uploadRoute_accepted [OF authenticate_alice f(1-3)]
      uploadHandler_pdf_ok [where summarizeDocument = summarizerS, OF r f(4,5)]
    by (simp add: emptyStore_def applyPatch_def completePatch_def f(6))
qed

lemma applyPatch_new [simp]:
  "applyPatch (completePatch s) (newContent u f n) =
     (newContent u f n)\<lparr>summary := Some s, status := Complete\<rparr>"
  "applyPatch failedPatch (newContent u f n) = (newContent u f n)\<lparr>status := Failed\<rparr>"
  by (simp_all add: applyPatch_def completePatch_def failedPatch_def newContent_def)

text \<open>
  C2, as the specification states it, promises a non-empty summary whenever the
  summarizer succeeds. The handler stores whatever text it was given: a summarizer that
  returns the empty text leaves a \<open>Complete\<close> record whose summary is empty.
\<close>

theorem empty_summary_is_stored:
  "summarizerEmpty (path aPdf) = Inr [] \<and>
   contents (fst (uploadHandler summarizerEmpty (handledRequest aPdf) emptyStore)) 0 =
     Some ((newContent alice aPdf 0)\<lparr>summary := Some [], status := Complete\<rparr>)"
proof -
  have r: "file_r (handledRequest aPdf) = Some aPdf" "user (handledRequest aPdf) = Some alice"
    "mimetype aPdf = ''application/pdf''" "summarizerEmpty (path aPdf) = Inr []"
    by (simp_all add: handledRequest_def aPdf_def summarizerEmpty_def)
  show ?thesis
    unfolding uploadHandler_pdf_ok [where summarizeDocument = summarizerEmpty, OF r]
    by (simp add: emptyStore_def r(4))
qed

text \<open>
  C2, amended. For a PDF that reaches the handler: when the summarizer returns a text,
  the record goes from \<open>Processing\<close> to \<open>Complete\<close> and its summary is exactly that
  text; when the summarizer raises, the record goes from \<open>Processing\<close> to \<open>Failed\<close>
  and keeps no summary, the error is logged, and the caller still receives the 201
  response with the created record.
\<close>

theorem pdf_upload_completes_or_fails:
  assumes "file_r req = Some f" and "user req = Some u"
    and "mimetype f = ''application/pdf''"
  shows "(\<forall>s. summarizeDocument (path f) = Inr s \<longrightarrow>
            contents (fst (uploadHandler summarizeDocument req st)) (nextId st) =
              Some ((newContent u f (nextId st))\<lparr>summary := Some s, status := Complete\<rparr>) \<and>
            snd (uploadHandler summarizeDocument req st) =
              [Created (newContent u f (nextId st)), SummarizerCalled (path f),
               Updated (nextId st) (completePatch s),
               Responded 201 (ContentBody (newContent u f (nextId st)))]) \<and>
         (\<forall>e. summarizeDocument (path f) = Inl e \<longrightarrow>
            contents (fst (uploadHandler summarizeDocument req st)) (nextId st) =
              Some ((newContent u f (nextId st))\<lparr>status := Failed\<rparr>) \<and>
            summary ((newContent u f (nextId st))\<lparr>status := Failed\<rparr>) = None \<and>
            snd (uploadHandler summarizeDocument req st) =
              [Created (newContent u f (nextId st)), SummarizerCalled (path f),
               Logged (ErrorSummarizingPdf e), Updated (nextId st) failedPatch,
               Responded 201 (ContentBody (newContent u f (nextId st)))])"
proof (intro conjI allI impI)
  fix s assume ok: "summarizeDocument (path f) = Inr s"
  note run = uploadHandler_pdf_ok [where summarizeDocument = summarizeDocument, OF assms ok]
  show "contents (fst (uploadHandler summarizeDocument req st)) (nextId st) =
          Some ((newContent u f (nextId st))\<lparr>summary := Some s, status := Complete\<rparr>)"
    by (simp add: run)
  show "snd (uploadHandler summarizeDocument req st) =
          [Created (newContent u f (nextId st)), SummarizerCalled (path f),
           Updated (nextId st) (completePatch s),
           Responded 201 (ContentBody (newContent u f (nextId st)))]"
    by (simp add: run)
next
  fix e assume bad: "summarizeDocument (path f) = Inl e"
  note run = uploadHandler_pdf_failed [where summarizeDocument = summarizeDocument, OF assms bad]
  show "contents (fst (uploadHandler summarizeDocument req st)) (nextId st) =
          Some ((newContent u f (nextId st))\<lparr>status := Failed\<rparr>)"
    by (simp add: run)
  show "summary ((newContent u f (nextId st))\<lparr>status := Failed\<rparr>) = None"
    by simp
  show "snd (uploadHandler summarizeDocument req st) =
          [Created (newContent u f (nextId st)), SummarizerCalled (path f),
           Logged (ErrorSummarizingPdf e), Updated (nextId st) failedPatch,
           Responded 201 (ContentBody (newContent u f (nextId st)))]"
    by (simp add: run)
qed

theorem pdf_upload_completes_or_fails_witness:
  "file_r (handledRequest aPdf) = Some aPdf \<and> user (handledRequest aPdf) = Some alice
   \<and> mimetype aPdf = ''application/pdf''
   \<and> summarizerS (path aPdf) = Inr ''S''
   \<and> summarizerDown (path aPdf) = Inl (JsError ''Failed to summarize document'')
   \<and> contents (fst (uploadHandler summarizerS (handledRequest aPdf) emptyStore)) 0 =
       Some ((newContent alice aPdf 0)\<lparr>summary := Some ''S'', status := Complete\<rparr>)
   \<and> contents (fst (uploadHandler summarizerDown (handledRequest aPdf) emptyStore)) 0 =
       Some ((newContent alice aPdf 0)\<lparr>status := Failed\<rparr>)
   \<and> snd (uploadHandler summarizerDown (handledRequest aPdf) emptyStore) =
       [Created (newContent alice aPdf 0), SummarizerCalled ''uploads/1-a.pdf'',
        Logged (ErrorSummarizingPdf (JsError ''Failed to summarize document'')),
        Updated 0 failedPatch, Responded 201 (ContentBody (newContent alice aPdf 0))]"
proof -
  have r: "file_r (handledRequest aPdf) = Some aPdf" "user (handledRequest aPdf) = Some alice"
    "mimetype aPdf = ''application/pdf''"
    by (simp_all add: handledRequest_def aPdf_def)
  have s: "summarizerS (path aPdf) = Inr ''S''"
    "summarizerDown (path aPdf) = Inl (JsError ''Failed to summarize document'')"
    "nextId emptyStore = 0" "path aPdf = ''uploads/1-a.pdf''"
    by (simp_all add: summarizerS_def summarizerDown_def emptyStore_def aPdf_def)
  show ?thesis
    using pdf_upload_completes_or_fails [OF r, of summarizerS emptyStore]
          pdf_upload_completes_or_fails [OF r, of summarizerDown emptyStore]
          r s
    by simp
qed

text \<open>
  C3. An accepted video (\<^verbatim>\<open>video/mp4\<close>) is created, updated once to \<open>Complete\<close> with
  the fixed placeholder summary and answered with 201: the summarizer is not called and no
  update carries another status, whatever the summarizer would have done.
\<close>

theorem video_upload_completes:
  assumes "file_r req = Some f" and "user req = Some u" and "mimetype f = ''video/mp4''"
  shows "snd (uploadHandler summarizeDocument req st) =
           [Created (newContent u f (nextId st)),
            Updated (nextId st)
              \<lparr>patch_summary = Some ''Video summary is not available in this demo version.'',
               patch_status = Some Complete\<rparr>,
            Responded 201 (ContentBody (newContent u f (nextId st)))] \<and>
         contents (fst (uploadHandler summarizeDocument req st)) (nextId st) =
           Some ((newContent u f (nextId st))
                  \<lparr>summary := Some ''Video summary is not available in this demo version.'',
                   status := Complete\<rparr>) \<and>
         (\<forall>p. SummarizerCalled p \<notin> set (snd (uploadHandler summarizeDocument req st))) \<and>
         (\<forall>i p. Updated i p \<in> set (snd (uploadHandler summarizeDocument req st)) \<longrightarrow>
                  patch_status p = Some Complete)"
proof -
  from assms(3) have "mimetype f \<noteq> ''application/pdf''" by simp
  note run = uploadHandler_video [where summarizeDocument = summarizeDocument, OF assms(1,2) this]
  show ?thesis
    by (simp add: run videoPatch_def completePatch_def applyPatch_def newContent_def)
qed

theorem video_upload_completes_witness:
  "file_r (handledRequest aVideo) = Some aVideo \<and> user (handledRequest aVideo) = Some alice
   \<and> mimetype aVideo = ''video/mp4''
   \<and> snd (uploadHandler summarizerDown (handledRequest aVideo) emptyStore) =
       [Created (newContent alice aVideo 0),
        Updated 0 \<lparr>patch_summary = Some ''Video summary is not available in this demo version.'',
                  patch_status = Some Complete\<rparr>,
        Responded 201 (ContentBody (newContent alice aVideo 0))]
   \<and> contents (fst (uploadHandler summarizerDown (handledRequest aVideo) emptyStore)) 0 =
       Some ((newContent alice aVideo 0)
              \<lparr>summary := Some ''Video summary is not available in this demo version.'',
               status := Complete\<rparr>)"
proof -
  have r: "file_r (handledRequest aVideo) = Some aVideo"
    "user (handledRequest aVideo) = Some alice" "mimetype aVideo = ''video/mp4''"
    by (simp_all add: handledRequest_def aVideo_def)
  have s: "nextId emptyStore = 0" by (simp add: emptyStore_def)
  show ?thesis
    using video_upload_completes [OF r, of summarizerDown emptyStore] r s
    by simp
qed



lemma uploadHandler_accepted:
  assumes "file_r req = Some f" and "user req = Some u"
  shows "\<exists>p mid.
     uploadHandler summarizeDocument req st =
       (st\<lparr>nextId := Suc (nextId st),
           contents := (contents st)(nextId st \<mapsto> applyPatch p (newContent u f (nextId st)))\<rparr>,
        Created (newContent u f (nextId st)) # mid @
          [Updated (nextId st) p, Responded 201 (ContentBody (newContent u f (nextId st)))]) \<and>
     (patch_status p = Some Complete \<or> patch_status p = Some Failed) \<and>
     filter isUpdate mid = []"
proof (cases "mimetype f = ''application/pdf''")
  case False
  show ?thesis
    unfolding uploadHandler_video [where summarizeDocument = summarizeDocument, OF assms False]
    by (rule exI [of _ videoPatch], rule exI [of _ "[]"])
       (simp add: videoPatch_def completePatch_def)
next
  case True
  show ?thesis
  proof (cases "summarizeDocument (path f)")
    case (Inr s)
    show ?thesis
      unfolding uploadHandler_pdf_ok [where summarizeDocument = summarizeDocument, OF assms True Inr]
      by (rule exI [of _ "completePatch s"], rule exI [of _ "[SummarizerCalled (path f)]"])
         (simp add: completePatch_def)
  next
    case (Inl e)
    show ?thesis
      unfolding uploadHandler_pdf_failed [where summarizeDocument = summarizeDocument, OF assms True Inl]
      by (rule exI [of _ failedPatch],
          rule exI [of _ "[SummarizerCalled (path f), Logged (ErrorSummarizingPdf e)]"])
         (simp add: failedPatch_def)
  qed
qed

lemma applyPatch_terminal:
  "patch_status p = Some Complete \<or> patch_status p = Some Failed \<Longrightarrow>
   terminal (status (applyPatch p c))"
  by (auto simp: applyPatch_def terminal_def)





lemma uploadHandler_store:
  "fst (uploadHandler summarizeDocument req st) = st \<or>
   (\<exists>c. fst (uploadHandler summarizeDocument req st) =
          st\<lparr>nextId := Suc (nextId st), contents := (contents st)(nextId st \<mapsto> c)\<rparr>)"
proof (cases "file_r req")
  case None
  then show ?thesis by (simp add: uploadHandler_def)
next
  case (Some f)
  show ?thesis
  proof (cases "user req")
    case None
    with Some show ?thesis by (simp add: uploadHandler_def)
  next
    case (Some u)
    from uploadHandler_accepted [where summarizeDocument = summarizeDocument, OF \<open>file_r req = Some f\<close> Some, of st]
    show ?thesis by auto
  qed
qed

lemma uploadHandler_keeps:
  assumes "storeOk st"
  shows "storeOk (fst (uploadHandler summarizeDocument req st))"
    and "contents st i = Some c \<Longrightarrow>
         contents (fst (uploadHandler summarizeDocument req st)) i = Some c"
proof -
  from assms have fresh: "contents st (nextId st) = None"
    by (auto simp: storeOk_def dom_def)
  show "storeOk (fst (uploadHandler summarizeDocument req st))"
    using uploadHandler_store [of summarizeDocument req st] assms
    by (auto simp: storeOk_def less_Suc_eq)
  show "contents (fst (uploadHandler summarizeDocument req st)) i = Some c"
    if "contents st i = Some c"
    using uploadHandler_store [of summarizeDocument req st] that fresh
    by auto
qed

lemma serve_keeps:
  "storeOk st \<Longrightarrow> contents st i = Some c \<Longrightarrow> contents (serve runs st) i = Some c"
proof (induction runs arbitrary: st)
  case Nil
  then show ?case by simp
next
  case (Cons sr runs)
  show ?case
    using Cons.IH [OF uploadHandler_keeps(1) [OF Cons.prems(1)]
                      uploadHandler_keeps(2) [OF Cons.prems(1) Cons.prems(2)]]
    by simp
qed

text \<open>
  C9. An accepted upload creates a record under an id no record had, in status
  \<open>Processing\<close>; the run then makes exactly one update, after the creation, and that
  update moves this record to \<open>Complete\<close> or to \<open>Failed\<close>; and whatever uploads are
  served afterwards, a record in a terminal status stays exactly as it is.
\<close>

theorem status_transitions_ordered_and_absorbing:
  assumes "storeOk st" and "file_r req = Some f" and "user req = Some u"
  shows "contents st (nextId st) = None \<and>
         (\<exists>p mid.
            snd (uploadHandler summarizeDocument req st) =
              Created (newContent u f (nextId st)) # mid @
                [Updated (nextId st) p, Responded 201 (ContentBody (newContent u f (nextId st)))] \<and>
            status (newContent u f (nextId st)) = Processing \<and>
            filter isUpdate (snd (uploadHandler summarizeDocument req st)) =
              [Updated (nextId st) p] \<and>
            (patch_status p = Some Complete \<or> patch_status p = Some Failed) \<and>
            contents (fst (uploadHandler summarizeDocument req st)) (nextId st) =
              Some (applyPatch p (newContent u f (nextId st))) \<and>
            terminal (status (applyPatch p (newContent u f (nextId st))))) \<and>
         (\<forall>runs i c. contents (fst (uploadHandler summarizeDocument req st)) i = Some c \<and>
                      terminal (status c) \<longrightarrow>
                      contents (serve runs (fst (uploadHandler summarizeDocument req st))) i = Some c)"
proof (intro conjI)
  from assms(1) show "contents st (nextId st) = None"
    by (auto simp: storeOk_def dom_def)
next
  from uploadHandler_accepted [where summarizeDocument = summarizeDocument, OF assms(2,3), of st]
  obtain p mid where
    run: "uploadHandler summarizeDocument req st =
       (st\<lparr>nextId := Suc (nextId st),
           contents := (contents st)(nextId st \<mapsto> applyPatch p (newContent u f (nextId st)))\<rparr>,
        Created (newContent u f (nextId st)) # mid @
          [Updated (nextId st) p, Responded 201 (ContentBody (newContent u f (nextId st)))])"
    and p: "patch_status p = Some Complete \<or> patch_status p = Some Failed"
    and mid: "filter isUpdate mid = []"
    by blast
  show "\<exists>p mid.
            snd (uploadHandler summarizeDocument req st) =
              Created (newContent u f (nextId st)) # mid @
                [Updated (nextId st) p, Responded 201 (ContentBody (newContent u f (nextId st)))] \<and>
            status (newContent u f (nextId st)) = Processing \<and>
            filter isUpdate (snd (uploadHandler summarizeDocument req st)) =
              [Updated (nextId st) p] \<and>
            (patch_status p = Some Complete \<or> patch_status p = Some Failed) \<and>
            contents (fst (uploadHandler summarizeDocument req st)) (nextId st) =
              Some (applyPatch p (newContent u f (nextId st))) \<and>
            terminal (status (applyPatch p (newContent u f (nextId st))))"
    by (rule exI [of _ p], rule exI [of _ mid])
       (simp add: run mid p applyPatch_terminal [OF p])
next
  show "\<forall>runs i c. contents (fst (uploadHandler summarizeDocument req st)) i = Some c \<and>
                      terminal (status c) \<longrightarrow>
                      contents (serve runs (fst (uploadHandler summarizeDocument req st))) i = Some c"
    using serve_keeps [OF uploadHandler_keeps(1) [OF assms(1)]] by blast
qed

lemma storeOk_empty: "storeOk emptyStore"
  by (simp add: storeOk_def emptyStore_def)

theorem status_transitions_ordered_and_absorbing_witness:
  "nextId emptyStore = 0 \<and> contents emptyStore 0 = None
   \<and> file_r (handledRequest aPdf) = Some aPdf
   \<and> user (handledRequest aPdf) = Some alice
   \<and> filter isUpdate (snd (uploadHandler summarizerS (handledRequest aPdf) emptyStore)) =
       [Updated 0 (completePatch ''S'')]
   \<and> contents (fst (uploadHandler summarizerS (handledRequest aPdf) emptyStore)) 0 =
       Some ((newContent alice aPdf 0)\<lparr>summary := Some ''S'', status := Complete\<rparr>)
   \<and> terminal (status ((newContent alice aPdf 0)\<lparr>summary := Some ''S'', status := Complete\<rparr>))
   \<and> contents (serve [(summarizerDown, handledRequest aPdf), (summarizerS, handledRequest aVideo)]
         (fst (uploadHandler summarizerS (handledRequest aPdf) emptyStore))) 0 =
       Some ((newContent alice aPdf 0)\<lparr>summary := Some ''S'', status := Complete\<rparr>)"
proof -
  have r: "file_r (handledRequest aPdf) = Some aPdf" "user (handledRequest aPdf) = Some alice"
    by (simp_all add: handledRequest_def)
  have m: "mimetype aPdf = ''application/pdf''" "summarizerS (path aPdf) = Inr ''S''"
    by (simp_all add: aPdf_def summarizerS_def)
  have run: "uploadHandler summarizerS (handledRequest aPdf) emptyStore =
      (emptyStore\<lparr>nextId := Suc 0,
         contents := Map.empty(0 \<mapsto> (newContent alice aPdf 0)\<lparr>summary := Some ''S'', status := Complete\<rparr>)\<rparr>,
       [Created (newContent alice aPdf 0), SummarizerCalled (path aPdf),
        Updated 0 (completePatch ''S''),
        Responded 201 (ContentBody (newContent alice aPdf 0))])"
    unfolding uploadHandler_pdf_ok [where summarizeDocument = summarizerS, OF r m]
    by (simp add: emptyStore_def)
  have t: "terminal (status ((newContent alice aPdf 0)\<lparr>summary := Some ''S'', status := Complete\<rparr>))"
    by (simp add: terminal_def)
  have stored: "contents (fst (uploadHandler summarizerS (handledRequest aPdf) emptyStore)) 0 =
      Some ((newContent alice aPdf 0)\<lparr>summary := Some ''S'', status := Complete\<rparr>)"
    by (simp add: run)
  have updates: "filter isUpdate (snd (uploadHandler summarizerS (handledRequest aPdf) emptyStore)) =
      [Updated 0 (completePatch ''S'')]"
    by (simp add: run)
  note absorbing =
    conjunct2 [OF conjunct2 [OF status_transitions_ordered_and_absorbing
                                  [OF storeOk_empty r, of summarizerS]]]
  have later: "contents (serve [(summarizerDown, handledRequest aPdf), (summarizerS, handledRequest aVideo)]
         (fst (uploadHandler summarizerS (handledRequest aPdf) emptyStore))) 0 =
       Some ((newContent alice aPdf 0)\<lparr>summary := Some ''S'', status := Complete\<rparr>)"
    by (rule absorbing [rule_format]) (rule conjI [OF stored t])
  have e: "nextId emptyStore = 0" "contents emptyStore 0 = None"
    by (simp_all add: emptyStore_def)
  show ?thesis
    by (intro conjI e r updates stored t later)
qed



lemma authenticate_keeps_part:
  "authenticate ss req = Next req1 \<Longrightarrow> file_part req1 = file_part req"
  by (auto simp: authenticate_def split: option.splits if_splits)

text \<open>
  C7, as the specification states it, promises a client error. For an authenticated
  upload of a PNG the route creates nothing, but it sends no response of its own either:
  the upload middleware hands an error that carries no HTTP status to \<^verbatim>\<open>next\<close>, and the
  handler with its 400 and 500 answers is never entered.
\<close>

theorem rejected_upload_gets_no_client_error:
  "mimetype anImage \<notin> set allowedMimes \<and>
   uploadRoute aliceSessions summarizerS (sentRequest (Some ''tok1'') anImage) emptyStore =
     (emptyStore,
      [PassedToNext (JsError ''Invalid file type. Only PDF and MP4 files are allowed.'')]) \<and>
   filter isClientError
     (snd (uploadRoute aliceSessions summarizerS (sentRequest (Some ''tok1'') anImage) emptyStore))
     = []"
proof -
  have run: "uploadRoute aliceSessions summarizerS (sentRequest (Some ''tok1'') anImage) emptyStore =
     (emptyStore,
      [PassedToNext (JsError ''Invalid file type. Only PDF and MP4 files are allowed.'')])"
    unfolding uploadRoute_def authenticate_alice
    by (simp add: uploadSingle_def sentRequest_def anImage_def allowedMimes_def)
  have mime: "mimetype anImage \<notin> set allowedMimes"
    by (simp add: anImage_def allowedMimes_def)
  show ?thesis
    unfolding run using mime by simp
qed

text \<open>
  C7, amended. For an upload whose MIME type is not allowed or whose size exceeds
  100 MiB, no record is created and the store is untouched; an unauthenticated caller
  gets the 401 of \<^verbatim>\<open>authenticate\<close>, and otherwise the error of the upload middleware (the
  invalid-type error, or \<^verbatim>\<open>LIMIT_FILE_SIZE\<close>) is passed to \<^verbatim>\<open>next\<close>, so the status the
  caller sees is chosen by the error handling outside this file.
\<close>

theorem rejected_upload_creates_nothing:
  assumes "file_part req = Some f"
    and "mimetype f \<notin> set allowedMimes \<or> fileSizeLimit < size_f f"
  shows "uploadRoute ss summarizeDocument req st =
     (st, case authenticate ss req of
            Respond code body \<Rightarrow> [Responded code body]
          | Next req1 \<Rightarrow>
              [PassedToNext
                 (if mimetype f \<in> set allowedMimes then MulterError ''LIMIT_FILE_SIZE''
                  else JsError ''Invalid file type. Only PDF and MP4 files are allowed.'')])"
proof (cases "authenticate ss req")
  case (Respond code body)
  then show ?thesis by (simp add: uploadRoute_def)
next
  case (Next req1)
  from authenticate_keeps_part [OF Next] assms(1) have "file_part req1 = Some f" by simp
  with assms(2) show ?thesis
    by (auto simp: uploadRoute_def Next uploadSingle_def)
qed

theorem rejected_upload_creates_nothing_witness:
  "file_part (sentRequest (Some ''tok1'') anImage) = Some anImage
   \<and> file_part (sentRequest (Some ''tok1'') aHugePdf) = Some aHugePdf
   \<and> mimetype anImage \<notin> set allowedMimes \<and> fileSizeLimit < size_f aHugePdf
   \<and> uploadRoute aliceSessions summarizerS (sentRequest (Some ''tok1'') anImage) emptyStore =
       (emptyStore,
        [PassedToNext (JsError ''Invalid file type. Only PDF and MP4 files are allowed.'')])
   \<and> uploadRoute aliceSessions summarizerS (sentRequest (Some ''tok1'') aHugePdf) emptyStore =
       (emptyStore, [PassedToNext (MulterError ''LIMIT_FILE_SIZE'')])"
proof -
  have p: "file_part (sentRequest (Some ''tok1'') anImage) = Some anImage"
    "file_part (sentRequest (Some ''tok1'') aHugePdf) = Some aHugePdf"
    by (simp_all add: sentRequest_def)
  have bad: "mimetype anImage \<notin> set allowedMimes" "fileSizeLimit < size_f aHugePdf"
    "mimetype aHugePdf \<in> set allowedMimes"
    by (simp_all add: anImage_def aHugePdf_def allowedMimes_def fileSizeLimit_def)
  have b1: "mimetype anImage \<notin> set allowedMimes \<or> fileSizeLimit < size_f anImage"
    and b2: "mimetype aHugePdf \<notin> set allowedMimes \<or> fileSizeLimit < size_f aHugePdf"
    using bad by simp_all
  show ?thesis
    using rejected_upload_creates_nothing [OF p(1) b1, of aliceSessions summarizerS emptyStore]
          rejected_upload_creates_nothing [OF p(2) b2, of aliceSessions summarizerS emptyStore]
          p bad
    by (simp add: authenticate_alice)
qed

text \<open>
  C8 asks that a token the session table does not know is answered with 401. The check
  \<^verbatim>\<open>!sessions[sessionId]\<close> reads a plain object, so a token that names a member of
  \<^verbatim>\<open>Object.prototype\<close> finds a truthy value: with no session at all, the token
  \<^verbatim>\<open>constructor\<close> passes the bootstrap and \<^verbatim>\<open>authenticate\<close>, and the request goes on
  with a user whose id and name are \<^verbatim>\<open>undefined\<close>.
\<close>

theorem inherited_key_passes_authenticate:
  "noSessions ''constructor'' = None \<and>
   guarded aliceRows ''k3x9'' noSessions (sentRequest (Some ''constructor'') aPdf) =
     (noSessions,
      Next ((sentRequest (Some ''constructor'') aPdf)
              \<lparr>user := Some \<lparr>user_id = Undefined, user_username = Undefined\<rparr>\<rparr>))"
  by (simp add: noSessions_def guarded_def autoLogin_def authenticate_def sentRequest_def
        sessionsGet_def objectPrototypeKeys_def)

text \<open>
  The rest of the authentication behaves as described: any other unknown token is
  answered with 401, and a request without a token is given a session of the first user
  and goes on as that user, provided a user exists and the drawn token is not empty.
\<close>

lemma authenticate_rejects_unknown:
  assumes "authorization req = Some k" and "ss k = None" and "k \<notin> set objectPrototypeKeys"
  shows "authenticate ss req = Respond 401 (MessageBody ''Unauthorized'')"
  using assms by (simp add: authenticate_def sessionsGet_def)

lemma guarded_bootstrap:
  assumes "authorization req = None" and "users = u # others" and "fresh \<noteq> []"
  shows "guarded users fresh ss req =
     (ss(fresh \<mapsto> \<lparr>userId = row_id u, username = row_username u\<rparr>),
      Next (req\<lparr>authorization := Some fresh,
                user := Some \<lparr>user_id = Num (row_id u), user_username = Str (row_username u)\<rparr>\<rparr>))"
  using assms by (simp add: guarded_def autoLogin_def authenticate_def sessionsGet_def)

lemma guarded_no_users:
  assumes "authorization req = None"
  shows "guarded [] fresh ss req = (ss, Respond 401 (MessageBody ''Unauthorized''))"
  using assms by (simp add: guarded_def autoLogin_def authenticate_def)

lemma guarded_empty_draw:
  assumes "authorization req = None" and "users = u # others"
  shows "snd (guarded users [] ss req) = Respond 401 (MessageBody ''Unauthorized'')"
  using assms by (simp add: guarded_def autoLogin_def authenticate_def)

end
